theory Spec2Isabelle
  imports Complex_Main "HOL-Library.Multiset" "HOL-Library.Log_Nat"
begin

section \<open>Biblioteca UCC: resources, loans, service decorators, fine strategies, invoices\<close>

text \<open>
  Conventions of the embedding.
  \<^item> A \<open>datetime\<close> is an \<open>int\<close>: microseconds since a fixed epoch. \<open>timedelta(days=n)\<close> is
    \<open>n * us_dia\<close> and \<open>timedelta.days\<close> is the floor division by \<open>us_dia\<close>.
  \<^item> \<open>datetime.now()\<close> is the parameter \<open>now\<close> of every function that reads the clock; one
    modelled call reads one instant.
  \<^item> A Python \<open>float\<close> holding money is a \<open>rat\<close>: the value of the double. The service costs
    and the flat daily rates (5.0, 10.0, 15.0, 2.0, 1.0, 2.5, and the halving) give integer
    multiples of one half that doubles add and multiply exactly for every day count a
    \<open>timedelta\<close> can hold, so these operations are the exact ones. The progressive strategy
    accumulates a sum that grows with the square of the day count and leaves the range in
    which half-integers are doubles; there every operation is followed by the rounding to
    the nearest double (\<open>doble\<close>).
  \<^item> \<open>print\<close> calls are not modelled.
\<close>

subsection \<open>recursos/recurso.py\<close>

definition us_dia :: int where
  "us_dia = 86400000000"

definition timedelta_days :: "int \<Rightarrow> int" where
  "timedelta_days n = n * us_dia"

definition dias_de :: "int \<Rightarrow> int" where
  "dias_de delta = delta div us_dia"

text \<open>
  The three subclasses of \<open>Recurso\<close> with their own fields. A field is \<open>None\<close> when the
  constructor received Python's \<open>None\<close> for it.
\<close>

datatype detalle_recurso =
    LibroImpreso "int option" "string option"
  | Revista "int option" "string option"
  | RecursoDigital "string option" "rat option" "string option"

record recurso =
  titulo :: "string option"
  autor :: "string option"
  isbn :: "string option"
  fecha_adquisicion :: int
  disponible :: bool
  detalle :: detalle_recurso

definition cambiar_disponibilidad :: "bool \<Rightarrow> recurso \<Rightarrow> recurso" where
  "cambiar_disponibilidad d r = r\<lparr>disponible := d\<rparr>"

definition calcular_antiguedad_dias :: "int \<Rightarrow> recurso \<Rightarrow> int" where
  "calcular_antiguedad_dias now r = dias_de (now - fecha_adquisicion r)"

fun duracion_detalle :: "detalle_recurso \<Rightarrow> int" where
  "duracion_detalle (LibroImpreso _ _) = 14"
| "duracion_detalle (Revista _ _) = 7"
| "duracion_detalle (RecursoDigital _ _ _) = 30"

definition obtener_duracion_prestamo_base :: "recurso \<Rightarrow> int" where
  "obtener_duracion_prestamo_base r = duracion_detalle (detalle r)"

fun tipo_detalle :: "detalle_recurso \<Rightarrow> string" where
  "tipo_detalle (LibroImpreso _ _) = ''Libro Impreso''"
| "tipo_detalle (Revista _ _) = ''Revista''"
| "tipo_detalle (RecursoDigital _ _ _) = ''Recurso Digital''"

definition obtener_tipo_recurso :: "recurso \<Rightarrow> string" where
  "obtener_tipo_recurso r = tipo_detalle (detalle r)"

subsection \<open>recursos/fabrica_recursos.py\<close>

text \<open>
  The keyword arguments \<open>**kwargs\<close> of a factory: one optional entry per key the factories
  read, \<open>None\<close> when the key is absent, so that \<open>kwargs.get(k)\<close> is the entry itself.
\<close>

record kwargs =
  kw_titulo :: "string option"
  kw_autor :: "string option"
  kw_isbn :: "string option"
  kw_fecha_adquisicion :: "int option"
  kw_numero_paginas :: "int option"
  kw_editorial :: "string option"
  kw_numero_edicion :: "int option"
  kw_mes_publicacion :: "string option"
  kw_formato :: "string option"
  kw_tamano_mb :: "rat option"
  kw_url_acceso :: "string option"

definition kwargs_vacio :: kwargs where
  "kwargs_vacio = \<lparr>kw_titulo = None, kw_autor = None, kw_isbn = None,
     kw_fecha_adquisicion = None, kw_numero_paginas = None, kw_editorial = None,
     kw_numero_edicion = None, kw_mes_publicacion = None, kw_formato = None,
     kw_tamano_mb = None, kw_url_acceso = None\<rparr>"

definition get_default :: "'a option \<Rightarrow> 'a \<Rightarrow> 'a" where
  "get_default entrada defecto = (case entrada of None \<Rightarrow> defecto | Some v \<Rightarrow> v)"

datatype fabrica = FabricaLibroImpreso | FabricaRevista | FabricaRecursoDigital

text \<open>\<open>Recurso.__init__\<close>: the common fields, available from the start.\<close>

definition recurso_init ::
  "string option \<Rightarrow> string option \<Rightarrow> string option \<Rightarrow> int \<Rightarrow> detalle_recurso \<Rightarrow> recurso" where
  "recurso_init t a i f d =
     \<lparr>titulo = t, autor = a, isbn = i, fecha_adquisicion = f, disponible = True, detalle = d\<rparr>"

fun crear_recurso :: "int \<Rightarrow> fabrica \<Rightarrow> kwargs \<Rightarrow> recurso" where
  "crear_recurso now FabricaLibroImpreso kw =
     recurso_init (kw_titulo kw) (kw_autor kw) (kw_isbn kw)
       (get_default (kw_fecha_adquisicion kw) now)
       (LibroImpreso (kw_numero_paginas kw) (kw_editorial kw))"
| "crear_recurso now FabricaRevista kw =
     recurso_init (kw_titulo kw) (kw_autor kw) (kw_isbn kw)
       (get_default (kw_fecha_adquisicion kw) now)
       (Revista (kw_numero_edicion kw) (kw_mes_publicacion kw))"
| "crear_recurso now FabricaRecursoDigital kw =
     recurso_init (kw_titulo kw) (kw_autor kw) (kw_isbn kw)
       (get_default (kw_fecha_adquisicion kw) now)
       (RecursoDigital (kw_formato kw) (kw_tamano_mb kw) (kw_url_acceso kw))"

definition registrar_recurso :: "int \<Rightarrow> fabrica \<Rightarrow> kwargs \<Rightarrow> recurso" where
  "registrar_recurso now fab kw = crear_recurso now fab kw"

record GestorDeInventario =
  recursos :: "recurso list"

definition inventario_init :: GestorDeInventario where
  "inventario_init = \<lparr>recursos = []\<rparr>"

definition agregar_recurso_con_fabrica ::
  "int \<Rightarrow> fabrica \<Rightarrow> kwargs \<Rightarrow> GestorDeInventario \<Rightarrow> recurso \<times> GestorDeInventario" where
  "agregar_recurso_con_fabrica now fab kw g =
     (let r = registrar_recurso now fab kw
      in (r, g\<lparr>recursos := recursos g @ [r]\<rparr>))"

fun buscar_isbn :: "recurso list \<Rightarrow> string \<Rightarrow> recurso option" where
  "buscar_isbn [] i = None"
| "buscar_isbn (r # rs) i = (if isbn r = Some i then Some r else buscar_isbn rs i)"

definition obtener_recurso_por_isbn :: "GestorDeInventario \<Rightarrow> string \<Rightarrow> recurso option" where
  "obtener_recurso_por_isbn g i = buscar_isbn (recursos g) i"

subsection \<open>estrategias/estrategia_multa.py\<close>

text \<open>
  \<open>round(x, 2)\<close>: the nearest multiple of one hundredth, a tie going to the even one.
\<close>

definition round2 :: "rat \<Rightarrow> rat" where
  "round2 x =
     (let y = x * 100; n = \<lfloor>y\<rfloor>; d = y - of_int n
      in of_int (if d < 1 / 2 then n
                 else if 1 / 2 < d then n + 1
                 else if even n then n else n + 1) / 100)"

datatype estrategia =
    MultaEstudianteStrategy
  | MultaDocenteStrategy
  | MultaRecargadaStrategy
  | MultaPorAntiguedadRecursoStrategy

definition estudiante_TARIFA_BASE_DIA :: rat where
  "estudiante_TARIFA_BASE_DIA = 2"

definition ANTIGUEDAD_UMBRAL_DIAS :: int where
  "ANTIGUEDAD_UMBRAL_DIAS = 365 * 5"

definition DESCUENTO_RECURSO_ANTIGUO :: rat where
  "DESCUENTO_RECURSO_ANTIGUO = 1 / 2"

definition estudiante_calcular_multa :: "int \<Rightarrow> int \<Rightarrow> rat \<Rightarrow> recurso \<Rightarrow> rat" where
  "estudiante_calcular_multa now dias_retraso costo_base_recurso r =
     (if dias_retraso \<le> 0 then 0
      else
        let multa = estudiante_TARIFA_BASE_DIA * of_int dias_retraso;
            antiguedad_dias = calcular_antiguedad_dias now r;
            multa = (if ANTIGUEDAD_UMBRAL_DIAS < antiguedad_dias
                     then multa * DESCUENTO_RECURSO_ANTIGUO else multa);
            multa = max multa 1
        in round2 multa)"

definition docente_TARIFA_BASE_DIA :: rat where
  "docente_TARIFA_BASE_DIA = 1"

definition DIAS_GRACIA :: int where
  "DIAS_GRACIA = 3"

definition docente_calcular_multa :: "int \<Rightarrow> int \<Rightarrow> rat \<Rightarrow> recurso \<Rightarrow> rat" where
  "docente_calcular_multa now dias_retraso costo_base_recurso r =
     (if dias_retraso \<le> 0 then 0
      else
        let dias_penalizables = max 0 (dias_retraso - DIAS_GRACIA)
        in if dias_penalizables = 0 then 0
           else round2 (docente_TARIFA_BASE_DIA * of_int dias_penalizables))"

text \<open>
  The nearest IEEE binary64 value of a rational, a tie going to the even significand:
  \<open>exponente x\<close> is the \<open>e\<close> with \<open>2 ^ e \<le> |x| < 2 ^ (e + 1)\<close>, \<open>ulp x\<close> the spacing of the
  doubles around \<open>x\<close> (53 significant bits, the subnormal spacing below \<open>2 ^ - 1022\<close>).
  Overflow to infinity is not modelled.
\<close>

definition entero_mas_cercano :: "rat \<Rightarrow> int" where
  "entero_mas_cercano y =
     (let n = \<lfloor>y\<rfloor>; d = y - of_int n
      in if d < 1 / 2 then n
         else if 1 / 2 < d then n + 1
         else if even n then n else n + 1)"

definition exponente :: "rat \<Rightarrow> int" where
  "exponente x =
     (let a = \<bar>x\<bar>
      in if 1 \<le> a then bitlen \<lfloor>a\<rfloor> - 1 else - bitlen (\<lceil>1 / a\<rceil> - 1))"

definition ulp :: "rat \<Rightarrow> rat" where
  "ulp x =
     (let e = max (exponente x) (- 1022)
      in if 52 \<le> e then 2 ^ nat (e - 52) else 1 / 2 ^ nat (52 - e))"

definition doble :: "rat \<Rightarrow> rat" where
  "doble x = (if x = 0 then 0 else of_int (entero_mas_cercano (x / ulp x)) * ulp x)"

definition TARIFA_INICIAL :: rat where
  "TARIFA_INICIAL = 3"

definition INCREMENTO_DIARIO :: rat where
  "INCREMENTO_DIARIO = 1 / 2"

text \<open>
  The body of the \<open>for dia in range(1, dias_retraso + 1)\<close> loop and the loop itself. The
  integer \<open>dia - 1\<close> becomes a double, and the product, the sum and the accumulation are
  double operations. The final \<open>round(multa, 2)\<close> is the decimal rounding of the double,
  read back as a double.
\<close>

definition recargada_paso :: "int \<Rightarrow> rat \<Rightarrow> rat" where
  "recargada_paso dia multa =
     (let tarifa_dia = doble (TARIFA_INICIAL + doble (INCREMENTO_DIARIO * doble (of_int (dia - 1))))
      in doble (multa + tarifa_dia))"

definition recargada_bucle :: "int \<Rightarrow> rat" where
  "recargada_bucle dias_retraso = fold recargada_paso [1..dias_retraso] 0"

definition recargada_calcular_multa :: "int \<Rightarrow> int \<Rightarrow> rat \<Rightarrow> recurso \<Rightarrow> rat" where
  "recargada_calcular_multa now dias_retraso costo_base_recurso r =
     (if dias_retraso \<le> 0 then 0
      else doble (round2 (recargada_bucle dias_retraso)))"

definition TARIFA_RECURSO_NUEVO :: rat where
  "TARIFA_RECURSO_NUEVO = 5"

definition TARIFA_RECURSO_MEDIO :: rat where
  "TARIFA_RECURSO_MEDIO = 5 / 2"

definition TARIFA_RECURSO_ANTIGUO :: rat where
  "TARIFA_RECURSO_ANTIGUO = 1"

definition antiguedad_tarifa :: "int \<Rightarrow> rat" where
  "antiguedad_tarifa antiguedad_dias =
     (let antiguedad_anos = (of_int antiguedad_dias :: rat) / 365
      in if antiguedad_anos < 1 then TARIFA_RECURSO_NUEVO
         else if antiguedad_anos < 5 then TARIFA_RECURSO_MEDIO
         else TARIFA_RECURSO_ANTIGUO)"

definition antiguedad_calcular_multa :: "int \<Rightarrow> int \<Rightarrow> rat \<Rightarrow> recurso \<Rightarrow> rat" where
  "antiguedad_calcular_multa now dias_retraso costo_base_recurso r =
     (if dias_retraso \<le> 0 then 0
      else
        let antiguedad_dias = calcular_antiguedad_dias now r;
            tarifa = antiguedad_tarifa antiguedad_dias;
            multa = tarifa * of_int dias_retraso
        in round2 multa)"

text \<open>Dynamic dispatch of \<open>IEstrategiaDeMulta.calcular_multa\<close>.\<close>

fun estrategia_calcular_multa :: "estrategia \<Rightarrow> int \<Rightarrow> int \<Rightarrow> rat \<Rightarrow> recurso \<Rightarrow> rat" where
  "estrategia_calcular_multa MultaEstudianteStrategy = estudiante_calcular_multa"
| "estrategia_calcular_multa MultaDocenteStrategy = docente_calcular_multa"
| "estrategia_calcular_multa MultaRecargadaStrategy = recargada_calcular_multa"
| "estrategia_calcular_multa MultaPorAntiguedadRecursoStrategy = antiguedad_calcular_multa"

text \<open>
  The names as the code returns them; the one letter outside ASCII, u with diaeresis, is
  its two UTF-8 bytes.
\<close>

fun obtener_nombre_estrategia :: "estrategia \<Rightarrow> string" where
  "obtener_nombre_estrategia MultaEstudianteStrategy = ''Estrategia de Multa para Estudiantes''"
| "obtener_nombre_estrategia MultaDocenteStrategy = ''Estrategia de Multa para Docentes''"
| "obtener_nombre_estrategia MultaRecargadaStrategy =
     ''Estrategia de Multa Recargada (Progresiva)''"
| "obtener_nombre_estrategia MultaPorAntiguedadRecursoStrategy =
     ''Estrategia de Multa por Antig'' @ [CHR 0xC3, CHR 0xBC] @ ''edad del Recurso''"

subsection \<open>prestamos/prestamo_base.py\<close>

datatype error = ValueError | AttributeError

record PrestamoBase =
  recurso :: recurso
  usuario :: string
  fecha_prestamo :: int
  estrategia_multa :: "estrategia option"
  costo_base :: rat

text \<open>\<open>PrestamoBase.__init__\<close>: the loan starts now, costs nothing, and takes the resource.\<close>

definition prestamo_base_init ::
  "int \<Rightarrow> recurso \<Rightarrow> string \<Rightarrow> estrategia option \<Rightarrow> PrestamoBase" where
  "prestamo_base_init now r u e =
     \<lparr>recurso = cambiar_disponibilidad False r, usuario = u, fecha_prestamo = now,
      estrategia_multa = e, costo_base = 0\<rparr>"

definition establecer_estrategia_multa :: "estrategia option \<Rightarrow> PrestamoBase \<Rightarrow> PrestamoBase" where
  "establecer_estrategia_multa e b = b\<lparr>estrategia_multa := e\<rparr>"

definition base_obtener_duracion_dias :: "PrestamoBase \<Rightarrow> int" where
  "base_obtener_duracion_dias b = obtener_duracion_prestamo_base (recurso b)"

definition base_obtener_costo_base :: "PrestamoBase \<Rightarrow> rat" where
  "base_obtener_costo_base b = costo_base b"

definition base_obtener_fecha_devolucion :: "PrestamoBase \<Rightarrow> int" where
  "base_obtener_fecha_devolucion b =
     fecha_prestamo b + timedelta_days (base_obtener_duracion_dias b)"

definition calcular_dias_retraso :: "int \<Rightarrow> PrestamoBase \<Rightarrow> int" where
  "calcular_dias_retraso now b =
     (let fecha_devolucion = base_obtener_fecha_devolucion b
      in if fecha_devolucion < now then dias_de (now - fecha_devolucion) else 0)"

definition calcular_multa :: "int \<Rightarrow> PrestamoBase \<Rightarrow> error + rat" where
  "calcular_multa now b =
     (case estrategia_multa b of
        None \<Rightarrow> Inl ValueError
      | Some e \<Rightarrow>
          let dias_retraso = calcular_dias_retraso now b
          in if dias_retraso \<le> 0 then Inr 0
             else Inr (estrategia_calcular_multa e now dias_retraso
                         (base_obtener_costo_base b) (recurso b)))"

definition devolver_recurso :: "PrestamoBase \<Rightarrow> PrestamoBase" where
  "devolver_recurso b = b\<lparr>recurso := cambiar_disponibilidad True (recurso b)\<rparr>"

subsection \<open>decoradores/decorador_prestamo.py\<close>

text \<open>
  An \<open>IPrestamo\<close> is the base loan or one of the three decorators around an inner
  \<open>IPrestamo\<close>, with the decorator's own datum (telephone, priority, coverage).
\<close>

datatype prestamo =
    Base PrestamoBase
  | DecoradorNotificacionSMS prestamo string
  | DecoradorReservaPreferencial prestamo int
  | DecoradorSeguroExtravio prestamo rat

definition COSTO_SERVICIO_SMS :: rat where
  "COSTO_SERVICIO_SMS = 5"

definition COSTO_RESERVA_PREFERENCIAL :: rat where
  "COSTO_RESERVA_PREFERENCIAL = 10"

definition DIAS_ADICIONALES :: int where
  "DIAS_ADICIONALES = 7"

definition COSTO_SEGURO :: rat where
  "COSTO_SEGURO = 15"

fun obtener_duracion_dias :: "prestamo \<Rightarrow> int" where
  "obtener_duracion_dias (Base b) = base_obtener_duracion_dias b"
| "obtener_duracion_dias (DecoradorNotificacionSMS p _) = obtener_duracion_dias p"
| "obtener_duracion_dias (DecoradorReservaPreferencial p _) =
     obtener_duracion_dias p + DIAS_ADICIONALES"
| "obtener_duracion_dias (DecoradorSeguroExtravio p _) = obtener_duracion_dias p"

fun obtener_costo_base :: "prestamo \<Rightarrow> rat" where
  "obtener_costo_base (Base b) = base_obtener_costo_base b"
| "obtener_costo_base (DecoradorNotificacionSMS p _) = obtener_costo_base p + COSTO_SERVICIO_SMS"
| "obtener_costo_base (DecoradorReservaPreferencial p _) =
     obtener_costo_base p + COSTO_RESERVA_PREFERENCIAL"
| "obtener_costo_base (DecoradorSeguroExtravio p _) = obtener_costo_base p + COSTO_SEGURO"

text \<open>No decorator overrides \<open>obtener_fecha_devolucion\<close>: each one delegates inwards.\<close>

fun obtener_fecha_devolucion :: "prestamo \<Rightarrow> int" where
  "obtener_fecha_devolucion (Base b) = base_obtener_fecha_devolucion b"
| "obtener_fecha_devolucion (DecoradorNotificacionSMS p _) = obtener_fecha_devolucion p"
| "obtener_fecha_devolucion (DecoradorReservaPreferencial p _) = obtener_fecha_devolucion p"
| "obtener_fecha_devolucion (DecoradorSeguroExtravio p _) = obtener_fecha_devolucion p"

text \<open>The innermost node, found by callers through \<open>prestamo_envuelto\<close>.\<close>

fun base_de :: "prestamo \<Rightarrow> PrestamoBase" where
  "base_de (Base b) = b"
| "base_de (DecoradorNotificacionSMS p _) = base_de p"
| "base_de (DecoradorReservaPreferencial p _) = base_de p"
| "base_de (DecoradorSeguroExtravio p _) = base_de p"

text \<open>
  A service is the choice of a decorator with its datum; applying a list of services wraps
  the loan with the first service innermost.
\<close>

datatype servicio = SMS string | Reserva int | Seguro rat

fun decorar :: "servicio \<Rightarrow> prestamo \<Rightarrow> prestamo" where
  "decorar (SMS tel) p = DecoradorNotificacionSMS p tel"
| "decorar (Reserva prioridad) p = DecoradorReservaPreferencial p prioridad"
| "decorar (Seguro monto) p = DecoradorSeguroExtravio p monto"

definition decorar_todos :: "servicio list \<Rightarrow> prestamo \<Rightarrow> prestamo" where
  "decorar_todos ss p = fold decorar ss p"

fun servicios_de :: "prestamo \<Rightarrow> servicio list" where
  "servicios_de (Base b) = []"
| "servicios_de (DecoradorNotificacionSMS p tel) = servicios_de p @ [SMS tel]"
| "servicios_de (DecoradorReservaPreferencial p prioridad) = servicios_de p @ [Reserva prioridad]"
| "servicios_de (DecoradorSeguroExtravio p monto) = servicios_de p @ [Seguro monto]"

fun delta_dias :: "servicio \<Rightarrow> int" where
  "delta_dias (SMS _) = 0"
| "delta_dias (Reserva _) = DIAS_ADICIONALES"
| "delta_dias (Seguro _) = 0"

fun delta_costo :: "servicio \<Rightarrow> rat" where
  "delta_costo (SMS _) = COSTO_SERVICIO_SMS"
| "delta_costo (Reserva _) = COSTO_RESERVA_PREFERENCIAL"
| "delta_costo (Seguro _) = COSTO_SEGURO"

subsection \<open>facturacion.py\<close>

text \<open>
  The text of an item's description is kept as its template with the values that the
  f-string interpolates:
  \<^item> \<open>DescRecurso\<close>: "Prestamo Base del Recurso";
  \<^item> \<open>DescSMS tel\<close>: "Servicio de Notificacion SMS a" and the telephone;
  \<^item> \<open>DescReserva n\<close>: "Reserva Preferencial (Prioridad n)";
  \<^item> \<open>DescSeguro m\<close>: "Seguro contra Extravio (Cobertura m)", the amount with two decimals;
  \<^item> \<open>DescMulta d e\<close>: "Multa por d dias de retraso (e)", with the strategy's name.
\<close>

datatype descripcion_item =
    DescRecurso
  | DescSMS string
  | DescReserva int
  | DescSeguro rat
  | DescMulta int string

record ItemFactura =
  descripcion :: descripcion_item
  cantidad :: int
  valor_unitario :: rat
  tipo :: string

definition item_factura :: "descripcion_item \<Rightarrow> int \<Rightarrow> rat \<Rightarrow> string \<Rightarrow> ItemFactura" where
  "item_factura d c v t = \<lparr>descripcion = d, cantidad = c, valor_unitario = v, tipo = t\<rparr>"

definition subtotal :: "ItemFactura \<Rightarrow> rat" where
  "subtotal it = of_int (cantidad it) * valor_unitario it"

text \<open>
  An invoice refers to the chain it bills and to that chain's base loan. The record holds
  the values of both at the instant it is read; \<open>agregar_multa\<close> reads the base loan only.
\<close>

record Factura =
  numero_factura :: string
  prestamo :: prestamo
  prestamo_base :: PrestamoBase
  items :: "ItemFactura list"
  fecha_emision :: int

text \<open>
  The \<open>while hasattr(prestamo_actual, 'prestamo_envuelto')\<close> loop of \<open>_generar_items\<close>: one
  item per decorator, from the outermost inwards, until the base loan.
\<close>

fun items_decoradores :: "prestamo \<Rightarrow> ItemFactura list" where
  "items_decoradores (Base b) = []"
| "items_decoradores (DecoradorNotificacionSMS p tel) =
     item_factura (DescSMS tel) 1 COSTO_SERVICIO_SMS ''SERVICIO'' # items_decoradores p"
| "items_decoradores (DecoradorReservaPreferencial p prioridad) =
     item_factura (DescReserva prioridad) 1 COSTO_RESERVA_PREFERENCIAL ''SERVICIO''
       # items_decoradores p"
| "items_decoradores (DecoradorSeguroExtravio p monto) =
     item_factura (DescSeguro monto) 1 COSTO_SEGURO ''SERVICIO'' # items_decoradores p"

definition generar_items :: "prestamo \<Rightarrow> PrestamoBase \<Rightarrow> ItemFactura list" where
  "generar_items p pb =
     (if 0 < base_obtener_costo_base pb
      then [item_factura DescRecurso 1 (base_obtener_costo_base pb) ''RECURSO'']
      else [])
     @ items_decoradores p"

definition factura_init :: "int \<Rightarrow> string \<Rightarrow> prestamo \<Rightarrow> PrestamoBase \<Rightarrow> Factura" where
  "factura_init now numero p pb =
     \<lparr>numero_factura = numero, prestamo = p, prestamo_base = pb,
      items = generar_items p pb, fecha_emision = now\<rparr>"

text \<open>
  \<open>agregar_multa\<close> returns what the call returns or raises, with the invoice as the call
  leaves it.
\<close>

definition agregar_multa :: "int \<Rightarrow> Factura \<Rightarrow> (error + rat) \<times> Factura" where
  "agregar_multa now f =
     (let dias_retraso = calcular_dias_retraso now (prestamo_base f)
      in if 0 < dias_retraso then
           (case calcular_multa now (prestamo_base f) of
              Inl e \<Rightarrow> (Inl e, f)
            | Inr multa \<Rightarrow>
                (case estrategia_multa (prestamo_base f) of
                   None \<Rightarrow> (Inl AttributeError, f)
                 | Some e \<Rightarrow>
                     (Inr multa,
                      f\<lparr>items := items f @
                          [item_factura (DescMulta dias_retraso (obtener_nombre_estrategia e))
                             1 multa ''MULTA'']\<rparr>)))
         else (Inr 0, f))"

definition calcular_subtotal :: "Factura \<Rightarrow> rat" where
  "calcular_subtotal f = sum_list (map subtotal (items f))"

definition calcular_iva :: "Factura \<Rightarrow> rat \<Rightarrow> rat" where
  "calcular_iva f porcentaje = calcular_subtotal f * porcentaje"

definition calcular_total :: "Factura \<Rightarrow> rat \<Rightarrow> rat" where
  "calcular_total f porcentaje_iva = calcular_subtotal f + calcular_iva f porcentaje_iva"

definition obtener_resumen :: "Factura \<Rightarrow> nat \<times> rat \<times> rat" where
  "obtener_resumen f = (length (items f), calcular_subtotal f, calcular_total f 0)"

text \<open>
  What \<open>generar_factura_texto\<close> prints in its table and totals block: the rows, the
  subtotal, the tax and the total. The layout of the text is not modelled. The footer reads
  the name of the bound strategy, so the call raises when none is bound.
\<close>

record cuerpo_factura =
  filas :: "ItemFactura list"
  cuerpo_subtotal :: rat
  cuerpo_iva :: rat
  cuerpo_total :: rat

definition cuerpo_de :: "Factura \<Rightarrow> error + cuerpo_factura" where
  "cuerpo_de f =
     (case estrategia_multa (prestamo_base f) of
        None \<Rightarrow> Inl AttributeError
      | Some e \<Rightarrow>
          Inr \<lparr>filas = items f, cuerpo_subtotal = calcular_subtotal f,
               cuerpo_iva = calcular_iva f 0, cuerpo_total = calcular_total f 0\<rparr>)"

definition generar_factura_texto ::
  "int \<Rightarrow> bool \<Rightarrow> Factura \<Rightarrow> (error + cuerpo_factura) \<times> Factura" where
  "generar_factura_texto now incluir_multa f =
     (if incluir_multa then
        (case agregar_multa now f of
           (Inl e, f') \<Rightarrow> (Inl e, f')
         | (Inr _, f') \<Rightarrow> (cuerpo_de f', f'))
      else (cuerpo_de f, f))"

record GestorFacturacion =
  contador_facturas :: int
  facturas_generadas :: "Factura list"

definition gestor_facturacion_init :: GestorFacturacion where
  "gestor_facturacion_init = \<lparr>contador_facturas = 1, facturas_generadas = []\<rparr>"

fun digitos :: "nat \<Rightarrow> string" where
  "digitos n =
     (if n < 10 then [char_of (48 + n)]
      else digitos (n div 10) @ [char_of (48 + n mod 10)])"

definition rellenar :: "nat \<Rightarrow> string \<Rightarrow> string" where
  "rellenar ancho s = replicate (ancho - length s) (CHR ''0'') @ s"

text \<open>The format \<open>06d\<close>: zero-padded to six characters, the sign included.\<close>

definition formato_06d :: "int \<Rightarrow> string" where
  "formato_06d n =
     (if n < 0 then CHR ''-'' # rellenar 5 (digitos (nat (- n)))
      else rellenar 6 (digitos (nat n)))"

definition generar_numero_factura :: "GestorFacturacion \<Rightarrow> string \<times> GestorFacturacion" where
  "generar_numero_factura g =
     (''FACT-UCC-'' @ formato_06d (contador_facturas g),
      g\<lparr>contador_facturas := contador_facturas g + 1\<rparr>)"

definition crear_factura ::
  "int \<Rightarrow> prestamo \<Rightarrow> PrestamoBase \<Rightarrow> bool \<Rightarrow> GestorFacturacion
     \<Rightarrow> (error + Factura) \<times> GestorFacturacion" where
  "crear_factura now p pb incluir_multa g =
     (case generar_numero_factura g of
        (numero, g1) \<Rightarrow>
          let factura = factura_init now numero p pb
          in if incluir_multa then
               (case agregar_multa now factura of
                  (Inl e, _) \<Rightarrow> (Inl e, g1)
                | (Inr _, factura') \<Rightarrow>
                    (Inr factura',
                     g1\<lparr>facturas_generadas := facturas_generadas g1 @ [factura']\<rparr>))
             else (Inr factura,
                   g1\<lparr>facturas_generadas := facturas_generadas g1 @ [factura]\<rparr>))"

definition obtener_total_facturado :: "GestorFacturacion \<Rightarrow> rat" where
  "obtener_total_facturado g = sum_list (map (\<lambda>f. calcular_total f 0) (facturas_generadas g))"

definition obtener_cantidad_facturas :: "GestorFacturacion \<Rightarrow> nat" where
  "obtener_cantidad_facturas g = length (facturas_generadas g)"

subsection \<open>Auxiliary definitions for the statements\<close>

text \<open>
  The closed form of the progressive fine as the specification words it:
  daysLate * 3.00 + 0.50 * daysLate * (daysLate - 1) / 2.
\<close>

definition recargada_forma_cerrada :: "int \<Rightarrow> rat" where
  "recargada_forma_cerrada dias =
     of_int dias * 3 + (1 / 2) * (of_int dias * (of_int dias - 1)) / 2"

text \<open>The items of an invoice that are fines.\<close>

definition multas :: "Factura \<Rightarrow> ItemFactura list" where
  "multas f = filter (\<lambda>it. tipo it = ''MULTA'') (items f)"

text \<open>
  A concrete scenario, after the repository's own demonstrations: a printed book acquired at
  instant 0, lent at instant 0, decorated with SMS, priority reservation and insurance.
\<close>

definition ejemplo_kwargs :: kwargs where
  "ejemplo_kwargs = kwargs_vacio\<lparr>kw_titulo := Some ''Patrones de Diseno'',
     kw_autor := Some ''Gang of Four'', kw_isbn := Some ''978-0201633610'',
     kw_fecha_adquisicion := Some 0, kw_numero_paginas := Some 395,
     kw_editorial := Some ''Addison-Wesley''\<rparr>"

definition ejemplo_recurso :: recurso where
  "ejemplo_recurso = crear_recurso 0 FabricaLibroImpreso ejemplo_kwargs"

definition ejemplo_base :: "estrategia option \<Rightarrow> PrestamoBase" where
  "ejemplo_base e = prestamo_base_init 0 ejemplo_recurso ''Ana Garcia'' e"

definition ejemplo_cadena :: "estrategia option \<Rightarrow> prestamo" where
  "ejemplo_cadena e =
     DecoradorSeguroExtravio
       (DecoradorReservaPreferencial
          (DecoradorNotificacionSMS (Base (ejemplo_base e)) ''+57-300-9876543'') 3) 150000"

definition ejemplo_factura :: "estrategia option \<Rightarrow> Factura" where
  "ejemplo_factura e = factura_init 0 ''FACT-UCC-000001'' (ejemplo_cadena e) (ejemplo_base e)"

section \<open>Properties\<close>

lemmas const_defs = us_dia_def timedelta_days_def dias_de_def
  estudiante_TARIFA_BASE_DIA_def ANTIGUEDAD_UMBRAL_DIAS_def DESCUENTO_RECURSO_ANTIGUO_def
  docente_TARIFA_BASE_DIA_def DIAS_GRACIA_def TARIFA_INICIAL_def INCREMENTO_DIARIO_def
  TARIFA_RECURSO_NUEVO_def TARIFA_RECURSO_MEDIO_def TARIFA_RECURSO_ANTIGUO_def
  COSTO_SERVICIO_SMS_def COSTO_RESERVA_PREFERENCIAL_def DIAS_ADICIONALES_def COSTO_SEGURO_def

lemmas ejemplo_defs = ejemplo_kwargs_def kwargs_vacio_def ejemplo_recurso_def ejemplo_base_def
  ejemplo_cadena_def ejemplo_factura_def recurso_init_def prestamo_base_init_def
  cambiar_disponibilidad_def get_default_def factura_init_def generar_items_def
  item_factura_def

lemmas base_defs = base_obtener_duracion_dias_def base_obtener_costo_base_def
  base_obtener_fecha_devolucion_def obtener_duracion_prestamo_base_def
  calcular_dias_retraso_def calcular_antiguedad_dias_def

lemmas estrategia_defs = estudiante_calcular_multa_def docente_calcular_multa_def
  recargada_calcular_multa_def antiguedad_calcular_multa_def

subsection \<open>Rounding and the progressive loop\<close>

lemma round2_medio: "round2 (of_int k / 2) = of_int k / 2"
proof -
  have y: "(of_int k / 2 :: rat) * 100 = of_int (50 * k)" by simp
  show ?thesis
    unfolding round2_def y Let_def by simp
qed

lemma entero_mas_cercano_of_int: "entero_mas_cercano (of_int j) = j"
  by (simp add: entero_mas_cercano_def)

lemma exponente_cota:
  assumes "\<bar>x\<bar> < 2 ^ 52"
  shows "exponente x \<le> 51"
proof (cases "1 \<le> \<bar>x\<bar>")
  case True
  let ?m = "\<lfloor>\<bar>x\<bar>\<rfloor>"
  have pos: "0 < ?m" using True by simp
  have "of_int ?m \<le> \<bar>x\<bar>" by simp
  with assms have "(of_int ?m :: rat) < 2 ^ 52" by linarith
  then have lt: "?m < 2 ^ 52" by (metis of_int_less_numeral_power_cancel_iff)
  have "(2::int) ^ nat (bitlen ?m - 1) \<le> ?m" using bitlen_bounds [OF pos] by simp
  with lt have "(2::int) ^ nat (bitlen ?m - 1) < 2 ^ 52" by linarith
  then have "nat (bitlen ?m - 1) < 52"
    by (rule power_less_imp_less_exp [rotated]) simp
  then have "bitlen ?m - 1 \<le> 51" by simp
  with True show ?thesis by (simp add: exponente_def Let_def)
next
  case False
  have "0 \<le> bitlen (\<lceil>1 / \<bar>x\<bar>\<rceil> - 1)" by (rule bitlen_nonneg)
  with False show ?thesis by (simp add: exponente_def Let_def)
qed

text \<open>Half-integers below \<open>2 ^ 52\<close> in magnitude are doubles.\<close>

lemma doble_exacto:
  assumes x: "x = of_int k / 2" and k: "\<bar>k\<bar> < 2 ^ 53"
  shows "doble x = x"
proof (cases "x = 0")
  case True
  then show ?thesis by (simp add: doble_def)
next
  case False
  have "\<bar>x\<bar> = of_int \<bar>k\<bar> / 2" unfolding x by simp
  also have "\<dots> < 2 ^ 53 / 2" using k by (simp add: divide_strict_right_mono)
  finally have "\<bar>x\<bar> < 2 ^ 52" by simp
  then have e: "exponente x \<le> 51" by (rule exponente_cota)
  define e where "e = max (exponente x) (- 1022)"
  have e51: "e \<le> 51" using e by (simp add: e_def)
  have u: "ulp x = 1 / 2 ^ nat (52 - e)" using e51 by (simp add: ulp_def e_def Let_def)
  have n: "nat (52 - e) = Suc (nat (51 - e))" using e51 by simp
  have "x / ulp x = x * 2 ^ nat (52 - e)" by (simp add: u)
  also have "\<dots> = of_int k * 2 ^ nat (51 - e)" by (simp add: x n)
  also have "\<dots> = of_int (k * 2 ^ nat (51 - e))" by simp
  finally have q: "x / ulp x = of_int (k * 2 ^ nat (51 - e))" .
  have "doble x = of_int (k * 2 ^ nat (51 - e)) * ulp x"
    using False unfolding doble_def q entero_mas_cercano_of_int by simp
  also have "\<dots> = of_int (k * 2 ^ nat (51 - e)) * (1 / 2 ^ nat (52 - e))" by (simp only: u)
  also have "\<dots> = x" by (simp add: x n)
  finally show ?thesis .
qed

lemma forma_cerrada_medio:
  assumes "0 \<le> n" and "n \<le> 134217722"
  shows "\<exists>k. recargada_forma_cerrada n = of_int k / 2 \<and> \<bar>k\<bar> < 2 ^ 53"
proof -
  have "even (n * (n - 1))" by simp
  then obtain j where j: "n * (n - 1) = 2 * j" by (elim evenE)
  have nn: "0 \<le> n * (n - 1)"
    using assms(1) by (cases "n = 0") simp_all
  have "n * (n - 1) \<le> 134217722 * (134217722 - 1)"
    using assms by (cases "n = 0") (simp, intro mult_mono, simp_all)
  with j nn have jb: "0 \<le> j" "j \<le> 9007198382325781" by simp_all
  have "(of_int n * (of_int n - 1) :: rat) = of_int (n * (n - 1))" by simp
  also have "\<dots> = 2 * of_int j" unfolding j by simp
  finally have "recargada_forma_cerrada n = of_int (6 * n + j) / 2"
    unfolding recargada_forma_cerrada_def by simp
  moreover have "\<bar>6 * n + j\<bar> < 2 ^ 53" using assms jb by simp
  ultimately show ?thesis by blast
qed

lemma forma_cerrada_paso:
  "recargada_forma_cerrada n + (3 + of_int n / 2) = recargada_forma_cerrada (n + 1)"
  by (simp add: recargada_forma_cerrada_def field_simps)

lemma recargada_paso_exacto:
  assumes "0 \<le> n" and "n + 1 \<le> 134217722"
  shows "recargada_paso (n + 1) (recargada_forma_cerrada n) = recargada_forma_cerrada (n + 1)"
proof -
  have t1: "doble (of_int n) = of_int n"
    using assms by (intro doble_exacto [where k = "2 * n"]) simp_all
  have t2: "doble (of_int n / 2) = of_int n / 2"
    using assms by (intro doble_exacto [where k = n]) simp_all
  have t3: "doble (3 + of_int n / 2) = 3 + of_int n / 2"
    using assms by (intro doble_exacto [where k = "6 + n"]) simp_all
  have n1: "0 \<le> n + 1" using assms by simp
  from forma_cerrada_medio [OF n1 assms(2)]
  obtain k where k: "recargada_forma_cerrada (n + 1) = of_int k / 2" "\<bar>k\<bar> < 2 ^ 53"
    by blast
  have t4: "doble (recargada_forma_cerrada (n + 1)) = recargada_forma_cerrada (n + 1)"
    using k by (rule doble_exacto)
  show ?thesis
    by (simp add: recargada_paso_def TARIFA_INICIAL_def INCREMENTO_DIARIO_def t1 t2 t3
          forma_cerrada_paso t4)
qed

lemma recargada_bucle_nat:
  "int m \<le> 134217722 \<Longrightarrow> recargada_bucle (int m) = recargada_forma_cerrada (int m)"
proof (induction m)
  case 0
  show ?case by (simp add: recargada_bucle_def recargada_forma_cerrada_def)
next
  case (Suc m)
  have "[1..int (Suc m)] = [1..int m] @ [int m + 1]"
    using upto_rec2 [of 1 "int (Suc m)"] by simp
  then have "recargada_bucle (int (Suc m)) = recargada_paso (int m + 1) (recargada_bucle (int m))"
    by (simp add: recargada_bucle_def)
  also have "\<dots> = recargada_paso (int m + 1) (recargada_forma_cerrada (int m))"
    using Suc by simp
  also have "\<dots> = recargada_forma_cerrada (int m + 1)"
    using Suc.prems by (intro recargada_paso_exacto) simp_all
  finally show ?case by (simp add: add.commute)
qed

lemma recargada_bucle_cerrada:
  assumes "0 \<le> n" and "n \<le> 134217722"
  shows "recargada_bucle n = recargada_forma_cerrada n"
proof -
  from assms(1) obtain m where n: "n = int m" using nonneg_int_cases by blast
  show ?thesis using assms(2) unfolding n by (rule recargada_bucle_nat)
qed

lemma estrategia_cero: "d \<le> 0 \<Longrightarrow> estrategia_calcular_multa e now d c r = 0"
  by (cases e) (simp_all add: estrategia_defs)

subsection \<open>Fine strategies\<close>

text \<open>
  C7, as stated: for every number of late days from 1 on, the accumulated and rounded fine
  equals the closed form. It fails at 134217723 late days: the closed form is
  4503599660924920.5, past \<open>2 ^ 52\<close>, where no half-integer is a double, and the loop's last
  addition rounds to 4503599660924920.
\<close>

theorem recargada_difiere_de_forma_cerrada:
  "recargada_calcular_multa 0 134217723 0 ejemplo_recurso = 4503599660924920
   \<and> recargada_forma_cerrada 134217723 = 4503599660924920 + 1 / 2
   \<and> recargada_calcular_multa 0 134217723 0 ejemplo_recurso
       \<noteq> recargada_forma_cerrada 134217723"
proof -
  have f: "recargada_forma_cerrada 134217723 = 4503599660924920 + 1 / 2"
    by (simp add: recargada_forma_cerrada_def)
  have "recargada_bucle 134217722 = recargada_forma_cerrada 134217722"
    by (rule recargada_bucle_cerrada) simp_all
  also have "\<dots> = 4503599593816056 + 1 / 2"
    by (simp add: recargada_forma_cerrada_def)
  finally have b: "recargada_bucle 134217722 = 4503599593816056 + 1 / 2" .
  have "[1..134217723] = [1..134217722] @ [134217723]"
    using upto_rec2 [of 1 134217723] by simp
  then have "recargada_bucle 134217723 = recargada_paso 134217723 (recargada_bucle 134217722)"
    by (simp add: recargada_bucle_def)
  also have "\<dots> = recargada_paso 134217723 (4503599593816056 + 1 / 2)"
    by (simp only: b)
  also have "\<dots> = 4503599660924920"
    by code_simp
  finally have c: "recargada_bucle 134217723 = 4503599660924920" .
  have r: "doble (round2 4503599660924920) = 4503599660924920"
    by code_simp
  have m: "recargada_calcular_multa 0 134217723 0 ejemplo_recurso = 4503599660924920"
    by (simp add: recargada_calcular_multa_def c r)
  show ?thesis unfolding m f by simp
qed

text \<open>
  C7, amended. For every number of late days from 1 to 134217722, the progressive
  strategy's fine, accumulated day by day in doubles and then rounded to two decimals,
  equals the closed form of the arithmetic series; three late days cost 10.50.
\<close>

theorem recargada_igual_forma_cerrada:
  "(1 \<le> dias \<and> dias \<le> 134217722
      \<longrightarrow> recargada_calcular_multa now dias costo r = recargada_forma_cerrada dias)
   \<and> recargada_calcular_multa now 3 costo r = 21 / 2"
proof -
  have a: "recargada_calcular_multa now d costo r = recargada_forma_cerrada d"
    if "1 \<le> d" and "d \<le> 134217722" for d
  proof -
    have d0: "0 \<le> d" using that by simp
    from forma_cerrada_medio [OF d0 that(2)]
    obtain k where k: "recargada_forma_cerrada d = of_int k / 2" "\<bar>k\<bar> < 2 ^ 53"
      by blast
    have "recargada_calcular_multa now d costo r = doble (round2 (recargada_bucle d))"
      using that by (simp add: recargada_calcular_multa_def)
    also have "\<dots> = doble (round2 (recargada_forma_cerrada d))"
      using that by (simp add: recargada_bucle_cerrada)
    also have "\<dots> = doble (recargada_forma_cerrada d)"
      unfolding k(1) by (simp only: round2_medio)
    also have "\<dots> = recargada_forma_cerrada d"
      using k by (rule doble_exacto)
    finally show ?thesis .
  qed
  have "recargada_calcular_multa now 3 costo r = recargada_forma_cerrada 3"
    by (rule a) simp_all
  also have "\<dots> = 21 / 2" by (simp add: recargada_forma_cerrada_def)
  finally show ?thesis using a by blast
qed

theorem recargada_igual_forma_cerrada_witness:
  "(1::int) \<le> 3 \<and> (3::int) \<le> 134217722
   \<and> recargada_calcular_multa 0 3 0 ejemplo_recurso = recargada_forma_cerrada 3
   \<and> recargada_forma_cerrada 3 = 21 / 2"
  using recargada_igual_forma_cerrada [of 3 0 0 ejemplo_recurso]
  by (simp add: recargada_forma_cerrada_def)

text \<open>
  C8. Each of the four strategies returns 0 whenever the number of late days is at most 0,
  whatever the resource and the cost; and a loan with a bound strategy and 0 late days has
  fine 0.
\<close>

theorem multa_cero_sin_retraso:
  "(dias_retraso \<le> 0 \<longrightarrow> estrategia_calcular_multa e now dias_retraso costo r = 0)
   \<and> (estrategia_multa b = Some e \<and> calcular_dias_retraso now b = 0
        \<longrightarrow> calcular_multa now b = Inr 0)"
  by (cases e) (simp_all add: estrategia_defs calcular_multa_def)

theorem multa_cero_sin_retraso_witness:
  "(0::int) \<le> 0
   \<and> estrategia_calcular_multa MultaEstudianteStrategy 0 0 30 ejemplo_recurso = 0
   \<and> estrategia_multa (ejemplo_base (Some MultaEstudianteStrategy)) = Some MultaEstudianteStrategy
   \<and> calcular_dias_retraso 0 (ejemplo_base (Some MultaEstudianteStrategy)) = 0
   \<and> calcular_multa 0 (ejemplo_base (Some MultaEstudianteStrategy)) = Inr 0"
  using multa_cero_sin_retraso [of 0 MultaEstudianteStrategy 0 30 ejemplo_recurso
              "ejemplo_base (Some MultaEstudianteStrategy)"]
  by (simp add: ejemplo_defs base_defs const_defs)

text \<open>
  C9. The fine of each strategy depends on the late days and on the resource's age only:
  no strategy looks at the accumulated cost it is given, and two resources of the same age
  in days, whatever else differs between them, get the same fine for the same late days,
  whatever the two costs.
\<close>

theorem multa_solo_dias_y_antiguedad:
  "estrategia_calcular_multa e now dias_retraso c1 r
     = estrategia_calcular_multa e now dias_retraso c2 r
   \<and> (calcular_antiguedad_dias now1 r1 = calcular_antiguedad_dias now2 r2 \<longrightarrow>
        estrategia_calcular_multa e now1 dias_retraso c1 r1
          = estrategia_calcular_multa e now2 dias_retraso c2 r2)"
  by (cases e) (simp_all add: estrategia_defs)

theorem multa_solo_dias_y_antiguedad_witness:
  "calcular_antiguedad_dias (timedelta_days 2000) ejemplo_recurso
     = calcular_antiguedad_dias (timedelta_days 2100)
         (ejemplo_recurso\<lparr>titulo := Some ''Otro titulo'',
            fecha_adquisicion := timedelta_days 100\<rparr>)
   \<and> estrategia_calcular_multa MultaEstudianteStrategy (timedelta_days 2000) 10 0
        ejemplo_recurso = 10
   \<and> estrategia_calcular_multa MultaEstudianteStrategy (timedelta_days 2100) 10 30
        (ejemplo_recurso\<lparr>titulo := Some ''Otro titulo'',
            fecha_adquisicion := timedelta_days 100\<rparr>) = 10"
proof -
  have a: "calcular_antiguedad_dias (timedelta_days 2000) ejemplo_recurso = 2000"
    by (simp add: ejemplo_defs base_defs const_defs)
  have b: "calcular_antiguedad_dias (timedelta_days 2100)
         (ejemplo_recurso\<lparr>titulo := Some ''Otro titulo'',
            fecha_adquisicion := timedelta_days 100\<rparr>) = 2000"
    by (simp add: ejemplo_defs base_defs const_defs)
  have c: "estrategia_calcular_multa MultaEstudianteStrategy (timedelta_days 2000) 10 0
        ejemplo_recurso = 10"
    by (simp add: estudiante_calcular_multa_def ejemplo_defs base_defs const_defs round2_def)
  from multa_solo_dias_y_antiguedad
         [of MultaEstudianteStrategy "timedelta_days 2000" 10 0 ejemplo_recurso 30
             "timedelta_days 2000" ejemplo_recurso "timedelta_days 2100"
             "ejemplo_recurso\<lparr>titulo := Some ''Otro titulo'',
                fecha_adquisicion := timedelta_days 100\<rparr>"]
       a b c
  show ?thesis by simp
qed

subsection \<open>The base loan's fine\<close>

text \<open>
  C5. \<open>calcular_multa\<close> of a base loan raises exactly when no strategy is bound, and then it
  raises the no-strategy error; with a strategy bound it returns what that strategy computes
  from the late days, the base cost and the resource; binding a strategy makes the next call
  succeed, whatever was bound before.
\<close>

theorem calcular_multa_error_sii_sin_estrategia:
  "((\<exists>err. calcular_multa now b = Inl err) \<longleftrightarrow> estrategia_multa b = None)
   \<and> (estrategia_multa b = None \<longrightarrow> calcular_multa now b = Inl ValueError)
   \<and> (estrategia_multa b = Some e \<longrightarrow>
        calcular_multa now b =
          Inr (estrategia_calcular_multa e now (calcular_dias_retraso now b)
                 (base_obtener_costo_base b) (recurso b)))
   \<and> calcular_multa now (establecer_estrategia_multa (Some e) b) =
        Inr (estrategia_calcular_multa e now (calcular_dias_retraso now b)
               (base_obtener_costo_base b) (recurso b))"
proof -
  have delega: "calcular_multa now b' =
      Inr (estrategia_calcular_multa e' now (calcular_dias_retraso now b')
             (base_obtener_costo_base b') (recurso b'))"
    if "estrategia_multa b' = Some e'" for b' e'
    using that by (simp add: calcular_multa_def Let_def estrategia_cero)
  have dias: "calcular_dias_retraso now (establecer_estrategia_multa (Some e) b)
      = calcular_dias_retraso now b"
    by (simp add: establecer_estrategia_multa_def base_defs)
  have p1: "(\<exists>err. calcular_multa now b = Inl err) \<longleftrightarrow> estrategia_multa b = None"
    by (cases "estrategia_multa b") (simp_all add: calcular_multa_def Let_def)
  have p2: "estrategia_multa b = None \<longrightarrow> calcular_multa now b = Inl ValueError"
    by (simp add: calcular_multa_def)
  have p4: "calcular_multa now (establecer_estrategia_multa (Some e) b) =
        Inr (estrategia_calcular_multa e now (calcular_dias_retraso now b)
               (base_obtener_costo_base b) (recurso b))"
    using delega [of "establecer_estrategia_multa (Some e) b" e] dias
    by (simp add: establecer_estrategia_multa_def base_obtener_costo_base_def)
  from p1 p2 p4 delega show ?thesis by blast
qed

theorem calcular_multa_error_sii_sin_estrategia_witness:
  "estrategia_multa (ejemplo_base None) = None
   \<and> calcular_multa (timedelta_days 24) (ejemplo_base None) = Inl ValueError
   \<and> estrategia_multa (ejemplo_base (Some MultaDocenteStrategy)) = Some MultaDocenteStrategy
   \<and> calcular_multa (timedelta_days 24) (ejemplo_base (Some MultaDocenteStrategy)) = Inr 7
   \<and> calcular_multa (timedelta_days 24)
        (establecer_estrategia_multa (Some MultaDocenteStrategy) (ejemplo_base None)) = Inr 7"
proof -
  have d: "calcular_dias_retraso (timedelta_days 24) (ejemplo_base e) = 10" for e
    by (simp add: ejemplo_defs base_defs const_defs)
  have m: "docente_calcular_multa (timedelta_days 24) 10 c r = 7" for c r
    by (simp add: docente_calcular_multa_def const_defs round2_def)
  have n: "estrategia_multa (ejemplo_base e) = e" for e
    by (simp add: ejemplo_base_def prestamo_base_init_def)
  show ?thesis
    using calcular_multa_error_sii_sin_estrategia
            [of "timedelta_days 24" "ejemplo_base None" MultaDocenteStrategy]
          calcular_multa_error_sii_sin_estrategia
            [of "timedelta_days 24" "ejemplo_base (Some MultaDocenteStrategy)"
                MultaDocenteStrategy]
    by (simp add: d m n)
qed

subsection \<open>Invoices\<close>

text \<open>
  C10. On an invoice whose base loan is late and has no strategy bound, \<open>agregar_multa\<close>
  raises the no-strategy error and leaves the invoice as it was: the items, and with them
  the subtotal and the total, are unchanged.
\<close>

theorem agregar_multa_atomica_sin_estrategia:
  "0 < calcular_dias_retraso now (prestamo_base f) \<and> estrategia_multa (prestamo_base f) = None
     \<longrightarrow> agregar_multa now f = (Inl ValueError, f)
         \<and> items (snd (agregar_multa now f)) = items f
         \<and> calcular_subtotal (snd (agregar_multa now f)) = calcular_subtotal f
         \<and> calcular_total (snd (agregar_multa now f)) iva = calcular_total f iva"
  by (simp add: agregar_multa_def calcular_multa_def Let_def)

theorem agregar_multa_atomica_sin_estrategia_witness:
  "0 < calcular_dias_retraso (timedelta_days 24) (prestamo_base (ejemplo_factura None))
   \<and> estrategia_multa (prestamo_base (ejemplo_factura None)) = None
   \<and> agregar_multa (timedelta_days 24) (ejemplo_factura None)
        = (Inl ValueError, ejemplo_factura None)"
proof -
  have d: "calcular_dias_retraso (timedelta_days 24) (prestamo_base (ejemplo_factura None)) = 10"
    by (simp add: ejemplo_defs base_defs const_defs)
  have n: "estrategia_multa (prestamo_base (ejemplo_factura None)) = None"
    by (simp add: ejemplo_defs)
  show ?thesis
    using agregar_multa_atomica_sin_estrategia [of "timedelta_days 24" "ejemplo_factura None"]
    by (simp add: d n)
qed

subsection \<open>Loan chains\<close>

lemma duracion_fold:
  "obtener_duracion_dias (fold decorar ss p) = obtener_duracion_dias p + sum_list (map delta_dias ss)"
proof (induction ss arbitrary: p)
  case Nil
  show ?case by simp
next
  case (Cons s ss)
  show ?case by (cases s) (simp_all add: Cons.IH)
qed

lemma costo_fold:
  "obtener_costo_base (fold decorar ss p) = obtener_costo_base p + sum_list (map delta_costo ss)"
proof (induction ss arbitrary: p)
  case Nil
  show ?case by simp
next
  case (Cons s ss)
  show ?case by (cases s) (simp_all add: Cons.IH)
qed

lemma sum_list_como_mset:
  fixes f :: "'a \<Rightarrow> 'b::comm_monoid_add"
  shows "sum_list (map f xs) = sum_mset (image_mset f (mset xs))"
  by (induction xs) simp_all

lemma decorar_servicios: "decorar_todos (servicios_de p) (Base (base_de p)) = p"
  by (induction p) (simp_all add: decorar_todos_def)

lemma fecha_devolucion_es_de_la_base:
  "obtener_fecha_devolucion p = base_obtener_fecha_devolucion (base_de p)"
  by (induction p) simp_all

text \<open>
  C4. Duration and cost of a decorated loan are sums over the services applied, whatever
  their order: the duration is the resource's base duration plus the services' day deltas,
  the cost is the base loan's cost (0 for every loan the constructor makes) plus the
  services' cost deltas, both as sums over the multiset of services; every chain is the
  decoration of its base loan by its services. A 14-day base of cost 0 with SMS, priority
  reservation and insurance, in any order, lasts 21 days and costs 30.
\<close>

theorem costo_duracion_suma_de_servicios:
  "obtener_duracion_dias (decorar_todos ss (Base b))
     = obtener_duracion_prestamo_base (recurso b) + sum_mset (image_mset delta_dias (mset ss))
   \<and> obtener_costo_base (decorar_todos ss (Base b))
     = costo_base b + sum_mset (image_mset delta_costo (mset ss))
   \<and> costo_base (prestamo_base_init now r u e) = 0
   \<and> decorar_todos (servicios_de p) (Base (base_de p)) = p
   \<and> (mset ss = mset ss' \<longrightarrow>
        obtener_duracion_dias (decorar_todos ss (Base b))
          = obtener_duracion_dias (decorar_todos ss' (Base b))
        \<and> obtener_costo_base (decorar_todos ss (Base b))
          = obtener_costo_base (decorar_todos ss' (Base b)))
   \<and> (mset ss = {#SMS tel, Reserva prioridad, Seguro monto#}
        \<and> obtener_duracion_prestamo_base (recurso b) = 14 \<and> costo_base b = 0 \<longrightarrow>
        obtener_duracion_dias (decorar_todos ss (Base b)) = 21
        \<and> obtener_costo_base (decorar_todos ss (Base b)) = 30)"
proof -
  have d: "obtener_duracion_dias (decorar_todos xs (Base b))
     = obtener_duracion_prestamo_base (recurso b) + sum_mset (image_mset delta_dias (mset xs))"
    for xs
    by (simp add: decorar_todos_def duracion_fold sum_list_como_mset base_obtener_duracion_dias_def)
  have c: "obtener_costo_base (decorar_todos xs (Base b))
     = costo_base b + sum_mset (image_mset delta_costo (mset xs))" for xs
    by (simp add: decorar_todos_def costo_fold sum_list_como_mset base_obtener_costo_base_def)
  have i: "costo_base (prestamo_base_init now r u e) = 0"
    by (simp add: prestamo_base_init_def)
  have o: "mset ss = mset ss' \<longrightarrow>
        obtener_duracion_dias (decorar_todos ss (Base b))
          = obtener_duracion_dias (decorar_todos ss' (Base b))
        \<and> obtener_costo_base (decorar_todos ss (Base b))
          = obtener_costo_base (decorar_todos ss' (Base b))"
    by (simp add: d c)
  have x: "mset ss = {#SMS tel, Reserva prioridad, Seguro monto#}
        \<and> obtener_duracion_prestamo_base (recurso b) = 14 \<and> costo_base b = 0 \<longrightarrow>
        obtener_duracion_dias (decorar_todos ss (Base b)) = 21
        \<and> obtener_costo_base (decorar_todos ss (Base b)) = 30"
    by (simp add: d c const_defs)
  from d c i o x decorar_servicios show ?thesis by blast
qed

theorem costo_duracion_suma_de_servicios_witness:
  "mset [Seguro 150000, SMS ''+57-300-9876543'', Reserva 3]
     = mset [SMS ''+57-300-9876543'', Reserva 3, Seguro 150000]
   \<and> mset [Seguro 150000, SMS ''+57-300-9876543'', Reserva 3]
     = {#SMS ''+57-300-9876543'', Reserva 3, Seguro 150000#}
   \<and> obtener_duracion_prestamo_base (recurso (ejemplo_base None)) = 14
   \<and> costo_base (ejemplo_base None) = 0
   \<and> obtener_duracion_dias
        (decorar_todos [Seguro 150000, SMS ''+57-300-9876543'', Reserva 3]
           (Base (ejemplo_base None))) = 21
   \<and> obtener_costo_base
        (decorar_todos [Seguro 150000, SMS ''+57-300-9876543'', Reserva 3]
           (Base (ejemplo_base None))) = 30
   \<and> obtener_duracion_dias
        (decorar_todos [SMS ''+57-300-9876543'', Reserva 3, Seguro 150000]
           (Base (ejemplo_base None))) = 21
   \<and> obtener_costo_base
        (decorar_todos [SMS ''+57-300-9876543'', Reserva 3, Seguro 150000]
           (Base (ejemplo_base None))) = 30"
proof -
  have m: "mset [Seguro 150000, SMS ''+57-300-9876543'', Reserva 3]
     = {#SMS ''+57-300-9876543'', Reserva 3, Seguro 150000#}"
    by (simp add: add_mset_commute)
  have m': "mset [Seguro 150000, SMS ''+57-300-9876543'', Reserva 3]
     = mset [SMS ''+57-300-9876543'', Reserva 3, Seguro 150000]"
    using m by simp
  have h: "obtener_duracion_prestamo_base (recurso (ejemplo_base None)) = 14"
    by (simp add: ejemplo_defs base_defs)
  have z: "costo_base (ejemplo_base None) = 0"
    by (simp add: ejemplo_defs)
  note t = costo_duracion_suma_de_servicios [of "[Seguro 150000, SMS ''+57-300-9876543'', Reserva 3]" "ejemplo_base None"
              0 ejemplo_recurso "''Ana Garcia''" None "ejemplo_cadena None"
              "[SMS ''+57-300-9876543'', Reserva 3, Seguro 150000]"
              "''+57-300-9876543''" 3 150000]
  from t m m' h z show ?thesis by metis
qed

text \<open>
  C1. The due date of a chain should be the loan start plus the chain's duration, so that a
  priority reservation moves it 7 days. Evaluated on a printed book lent at instant 0 and
  decorated with a priority reservation: the chain lasts 21 days, yet its due date is the
  loan start plus 14 days, the undecorated loan's due date.
\<close>

theorem fecha_devolucion_ignora_reserva:
  "obtener_duracion_dias (DecoradorReservaPreferencial (Base (ejemplo_base None)) 1) = 21
   \<and> obtener_fecha_devolucion (DecoradorReservaPreferencial (Base (ejemplo_base None)) 1)
       = fecha_prestamo (ejemplo_base None) + timedelta_days 14
   \<and> obtener_fecha_devolucion (DecoradorReservaPreferencial (Base (ejemplo_base None)) 1)
       = obtener_fecha_devolucion (Base (ejemplo_base None))
   \<and> obtener_fecha_devolucion (DecoradorReservaPreferencial (Base (ejemplo_base None)) 1)
       \<noteq> fecha_prestamo (ejemplo_base None)
           + timedelta_days
               (obtener_duracion_dias (DecoradorReservaPreferencial (Base (ejemplo_base None)) 1))"
  by (simp add: ejemplo_defs base_defs const_defs)

subsection \<open>The age-tiered strategy at its boundaries\<close>

lemma antiguedad_tarifa_tramos:
  "antiguedad_tarifa d = (if d < 365 then 5 else if d < 1825 then 5 / 2 else 1)"
  by (simp add: antiguedad_tarifa_def const_defs Let_def)

text \<open>
  C6. The age-tiered strategy should charge 2.50 a day up to and including an age of five
  years and 1.00 a day beyond. Evaluated on a resource that is exactly 1825 days old, ten
  days late: the rate is the old-resource rate and the fine is 10, not 25.
\<close>

theorem antiguedad_cinco_anos_tarifa_antiguo:
  "calcular_antiguedad_dias (timedelta_days 1825) ejemplo_recurso = 365 * 5
   \<and> antiguedad_tarifa (365 * 5) = TARIFA_RECURSO_ANTIGUO
   \<and> antiguedad_calcular_multa (timedelta_days 1825) 10 0 ejemplo_recurso = 10"
  by (simp add: antiguedad_calcular_multa_def antiguedad_tarifa_def ejemplo_defs base_defs
        const_defs round2_def Let_def)

subsection \<open>Appending the fine to an invoice\<close>

lemma dias_ejemplo: "calcular_dias_retraso (timedelta_days 24) (ejemplo_base e) = 10"
  by (simp add: ejemplo_defs base_defs const_defs)

lemma docente_diez: "docente_calcular_multa now 10 c r = 7"
  by (simp add: docente_calcular_multa_def const_defs round2_def)

lemma agregar_multa_con_estrategia:
  assumes "0 < calcular_dias_retraso now (prestamo_base g)"
    and "estrategia_multa (prestamo_base g) = Some e"
  shows "agregar_multa now g =
      (Inr (estrategia_calcular_multa e now (calcular_dias_retraso now (prestamo_base g))
              (base_obtener_costo_base (prestamo_base g)) (recurso (prestamo_base g))),
       g\<lparr>items := items g @
           [item_factura (DescMulta (calcular_dias_retraso now (prestamo_base g))
              (obtener_nombre_estrategia e)) 1
              (estrategia_calcular_multa e now (calcular_dias_retraso now (prestamo_base g))
                 (base_obtener_costo_base (prestamo_base g)) (recurso (prestamo_base g)))
              ''MULTA'']\<rparr>)"
  using assms by (simp add: agregar_multa_def calcular_multa_def Let_def)

lemma agregar_multa_ejemplo:
  assumes "prestamo_base f = ejemplo_base (Some MultaDocenteStrategy)"
  shows "agregar_multa (timedelta_days 24) f =
     (Inr 7, f\<lparr>items := items f @
        [item_factura (DescMulta 10 ''Estrategia de Multa para Docentes'') 1 7 ''MULTA'']\<rparr>)"
proof -
  have d: "calcular_dias_retraso (timedelta_days 24) (prestamo_base f) = 10"
    unfolding assms by (rule dias_ejemplo)
  have e: "estrategia_multa (prestamo_base f) = Some MultaDocenteStrategy"
    unfolding assms by (simp add: ejemplo_base_def prestamo_base_init_def)
  have "0 < calcular_dias_retraso (timedelta_days 24) (prestamo_base f)"
    unfolding d by simp
  from agregar_multa_con_estrategia [OF this e] show ?thesis
    unfolding d by (simp add: docente_diez)
qed

text \<open>
  C2, as stated: a second \<open>agregar_multa\<close> leaves the items, the subtotal and the total as
  after the first, with one fine item. It fails on the example invoice, ten days late under
  the faculty strategy: the second call leaves two fine items and raises the total from 37
  to 44.
\<close>

theorem agregar_multa_no_idempotente:
  "0 < calcular_dias_retraso (timedelta_days 24)
         (prestamo_base (ejemplo_factura (Some MultaDocenteStrategy)))
   \<and> estrategia_multa (prestamo_base (ejemplo_factura (Some MultaDocenteStrategy)))
       = Some MultaDocenteStrategy
   \<and> length (multas (snd (agregar_multa (timedelta_days 24)
                             (ejemplo_factura (Some MultaDocenteStrategy))))) = 1
   \<and> length (multas (snd (agregar_multa (timedelta_days 24)
        (snd (agregar_multa (timedelta_days 24)
                (ejemplo_factura (Some MultaDocenteStrategy))))))) = 2
   \<and> items (snd (agregar_multa (timedelta_days 24)
        (snd (agregar_multa (timedelta_days 24)
                (ejemplo_factura (Some MultaDocenteStrategy))))))
       \<noteq> items (snd (agregar_multa (timedelta_days 24)
                        (ejemplo_factura (Some MultaDocenteStrategy))))
   \<and> calcular_total (snd (agregar_multa (timedelta_days 24)
                             (ejemplo_factura (Some MultaDocenteStrategy)))) 0 = 37
   \<and> calcular_total (snd (agregar_multa (timedelta_days 24)
        (snd (agregar_multa (timedelta_days 24)
                (ejemplo_factura (Some MultaDocenteStrategy)))))) 0 = 44"
proof -
  have pb: "prestamo_base (ejemplo_factura e) = ejemplo_base e" for e
    by (simp add: ejemplo_factura_def factura_init_def)
  have its: "items (ejemplo_factura e) =
     [item_factura (DescSeguro 150000) 1 15 ''SERVICIO'',
      item_factura (DescReserva 3) 1 10 ''SERVICIO'',
      item_factura (DescSMS ''+57-300-9876543'') 1 5 ''SERVICIO'']" for e
    by (simp add: ejemplo_factura_def factura_init_def generar_items_def ejemplo_cadena_def
          ejemplo_base_def prestamo_base_init_def base_obtener_costo_base_def const_defs)
  show ?thesis
    by (simp add: agregar_multa_ejemplo pb its dias_ejemplo multas_def item_factura_def
          calcular_total_def calcular_iva_def calcular_subtotal_def subtotal_def)
       (simp add: ejemplo_base_def prestamo_base_init_def)
qed

text \<open>
  C2, amended. On an invoice whose base loan is late and has a strategy bound, every
  \<open>agregar_multa\<close> appends one more fine item with the fine computed at that call and
  returns that fine; two calls at the same instant append two equal fine items and raise
  the subtotal by twice the fine. Rendering with \<open>incluir_multa\<close> true leaves the invoice as
  \<open>agregar_multa\<close> does; rendering with \<open>incluir_multa\<close> false leaves it unchanged.
\<close>

theorem agregar_multa_acumula:
  "(0 < calcular_dias_retraso now (prestamo_base f) \<and> estrategia_multa (prestamo_base f) = Some e
      \<longrightarrow>
      (let dias = calcular_dias_retraso now (prestamo_base f);
           m = estrategia_calcular_multa e now dias (base_obtener_costo_base (prestamo_base f))
                 (recurso (prestamo_base f));
           it = item_factura (DescMulta dias (obtener_nombre_estrategia e)) 1 m ''MULTA''
       in agregar_multa now f = (Inr m, f\<lparr>items := items f @ [it]\<rparr>)
          \<and> agregar_multa now (snd (agregar_multa now f))
              = (Inr m, f\<lparr>items := items f @ [it, it]\<rparr>)
          \<and> length (multas (snd (agregar_multa now f))) = length (multas f) + 1
          \<and> length (multas (snd (agregar_multa now (snd (agregar_multa now f)))))
              = length (multas f) + 2
          \<and> calcular_subtotal (snd (agregar_multa now f)) = calcular_subtotal f + m
          \<and> calcular_subtotal (snd (agregar_multa now (snd (agregar_multa now f))))
              = calcular_subtotal f + 2 * m))
   \<and> snd (generar_factura_texto now True f) = snd (agregar_multa now f)
   \<and> snd (generar_factura_texto now False f) = f"
proof -
  note uno = agregar_multa_con_estrategia
  have t: "snd (generar_factura_texto now True f) = snd (agregar_multa now f)"
    by (simp add: generar_factura_texto_def split: prod.splits sum.splits)
  have n: "snd (generar_factura_texto now False f) = f"
    by (simp add: generar_factura_texto_def)
  have a: "0 < calcular_dias_retraso now (prestamo_base f)
           \<and> estrategia_multa (prestamo_base f) = Some e \<longrightarrow>
      (let dias = calcular_dias_retraso now (prestamo_base f);
           m = estrategia_calcular_multa e now dias (base_obtener_costo_base (prestamo_base f))
                 (recurso (prestamo_base f));
           it = item_factura (DescMulta dias (obtener_nombre_estrategia e)) 1 m ''MULTA''
       in agregar_multa now f = (Inr m, f\<lparr>items := items f @ [it]\<rparr>)
          \<and> agregar_multa now (snd (agregar_multa now f))
              = (Inr m, f\<lparr>items := items f @ [it, it]\<rparr>)
          \<and> length (multas (snd (agregar_multa now f))) = length (multas f) + 1
          \<and> length (multas (snd (agregar_multa now (snd (agregar_multa now f)))))
              = length (multas f) + 2
          \<and> calcular_subtotal (snd (agregar_multa now f)) = calcular_subtotal f + m
          \<and> calcular_subtotal (snd (agregar_multa now (snd (agregar_multa now f))))
              = calcular_subtotal f + 2 * m)"
  proof (intro impI, elim conjE)
    assume h: "0 < calcular_dias_retraso now (prestamo_base f)"
      "estrategia_multa (prestamo_base f) = Some e"
    note u1 = uno [OF h]
    have h2: "0 < calcular_dias_retraso now (prestamo_base (snd (agregar_multa now f)))"
      "estrategia_multa (prestamo_base (snd (agregar_multa now f))) = Some e"
      using h by (simp_all add: u1)
    note u2 = uno [OF h2]
    show "let dias = calcular_dias_retraso now (prestamo_base f);
           m = estrategia_calcular_multa e now dias (base_obtener_costo_base (prestamo_base f))
                 (recurso (prestamo_base f));
           it = item_factura (DescMulta dias (obtener_nombre_estrategia e)) 1 m ''MULTA''
       in agregar_multa now f = (Inr m, f\<lparr>items := items f @ [it]\<rparr>)
          \<and> agregar_multa now (snd (agregar_multa now f))
              = (Inr m, f\<lparr>items := items f @ [it, it]\<rparr>)
          \<and> length (multas (snd (agregar_multa now f))) = length (multas f) + 1
          \<and> length (multas (snd (agregar_multa now (snd (agregar_multa now f)))))
              = length (multas f) + 2
          \<and> calcular_subtotal (snd (agregar_multa now f)) = calcular_subtotal f + m
          \<and> calcular_subtotal (snd (agregar_multa now (snd (agregar_multa now f))))
              = calcular_subtotal f + 2 * m"
      unfolding Let_def u2 unfolding u1
      by (simp add: multas_def item_factura_def calcular_subtotal_def subtotal_def)
  qed
  from a t n show ?thesis by blast
qed

theorem agregar_multa_acumula_witness:
  "0 < calcular_dias_retraso (timedelta_days 24)
         (prestamo_base (ejemplo_factura (Some MultaDocenteStrategy)))
   \<and> estrategia_multa (prestamo_base (ejemplo_factura (Some MultaDocenteStrategy)))
       = Some MultaDocenteStrategy
   \<and> agregar_multa (timedelta_days 24) (ejemplo_factura (Some MultaDocenteStrategy))
       = (Inr 7, (ejemplo_factura (Some MultaDocenteStrategy))
            \<lparr>items := items (ejemplo_factura (Some MultaDocenteStrategy)) @
               [item_factura (DescMulta 10 ''Estrategia de Multa para Docentes'') 1 7
                  ''MULTA'']\<rparr>)
   \<and> length (multas (snd (agregar_multa (timedelta_days 24)
        (snd (agregar_multa (timedelta_days 24)
                (ejemplo_factura (Some MultaDocenteStrategy)))))))
       = length (multas (ejemplo_factura (Some MultaDocenteStrategy))) + 2"
proof -
  have pb: "prestamo_base (ejemplo_factura e) = ejemplo_base e" for e
    by (simp add: ejemplo_factura_def factura_init_def)
  have n: "estrategia_multa (ejemplo_base e) = e" for e
    by (simp add: ejemplo_base_def prestamo_base_init_def)
  have h1: "0 < calcular_dias_retraso (timedelta_days 24)
         (prestamo_base (ejemplo_factura (Some MultaDocenteStrategy)))"
    by (simp add: pb dias_ejemplo)
  have h2: "estrategia_multa (prestamo_base (ejemplo_factura (Some MultaDocenteStrategy)))
       = Some MultaDocenteStrategy"
    by (simp add: pb n)
  note t = agregar_multa_acumula [of "timedelta_days 24" "ejemplo_factura (Some MultaDocenteStrategy)"
                         MultaDocenteStrategy, unfolded Let_def]
  from t h1 h2 have c1: "agregar_multa (timedelta_days 24)
        (ejemplo_factura (Some MultaDocenteStrategy)) =
     (Inr (estrategia_calcular_multa MultaDocenteStrategy (timedelta_days 24)
             (calcular_dias_retraso (timedelta_days 24)
                (prestamo_base (ejemplo_factura (Some MultaDocenteStrategy))))
             (base_obtener_costo_base (prestamo_base (ejemplo_factura (Some MultaDocenteStrategy))))
             (recurso (prestamo_base (ejemplo_factura (Some MultaDocenteStrategy))))),
      (ejemplo_factura (Some MultaDocenteStrategy))
        \<lparr>items := items (ejemplo_factura (Some MultaDocenteStrategy)) @
           [item_factura
              (DescMulta (calcular_dias_retraso (timedelta_days 24)
                            (prestamo_base (ejemplo_factura (Some MultaDocenteStrategy))))
                 (obtener_nombre_estrategia MultaDocenteStrategy)) 1
              (estrategia_calcular_multa MultaDocenteStrategy (timedelta_days 24)
                 (calcular_dias_retraso (timedelta_days 24)
                    (prestamo_base (ejemplo_factura (Some MultaDocenteStrategy))))
                 (base_obtener_costo_base
                    (prestamo_base (ejemplo_factura (Some MultaDocenteStrategy))))
                 (recurso (prestamo_base (ejemplo_factura (Some MultaDocenteStrategy)))))
              ''MULTA'']\<rparr>)"
    by blast
  from t h1 h2 have c4: "length (multas (snd (agregar_multa (timedelta_days 24)
        (snd (agregar_multa (timedelta_days 24)
                (ejemplo_factura (Some MultaDocenteStrategy)))))))
       = length (multas (ejemplo_factura (Some MultaDocenteStrategy))) + 2"
    by blast
  have c1': "agregar_multa (timedelta_days 24) (ejemplo_factura (Some MultaDocenteStrategy))
       = (Inr 7, (ejemplo_factura (Some MultaDocenteStrategy))
            \<lparr>items := items (ejemplo_factura (Some MultaDocenteStrategy)) @
               [item_factura (DescMulta 10 ''Estrategia de Multa para Docentes'') 1 7
                  ''MULTA'']\<rparr>)"
    using c1 unfolding pb dias_ejemplo by (simp add: docente_diez)
  from h1 h2 c1' c4 show ?thesis by blast
qed

text \<open>
  The same duplication through the other two paths: an invoice created with
  \<open>incluir_multa\<close> true holds one fine item, and rendering it with \<open>incluir_multa\<close> true
  leaves two.
\<close>

theorem crear_y_generar_duplica_multa:
  "(case crear_factura (timedelta_days 24) (ejemplo_cadena (Some MultaDocenteStrategy))
           (ejemplo_base (Some MultaDocenteStrategy)) True gestor_facturacion_init of
      (Inl err, g) \<Rightarrow> False
    | (Inr f, g) \<Rightarrow>
        length (multas f) = 1
        \<and> length (multas (snd (generar_factura_texto (timedelta_days 24) True f))) = 2
        \<and> items (snd (generar_factura_texto (timedelta_days 24) True f)) \<noteq> items f)"
proof -
  have pb: "prestamo_base (factura_init t nf p (ejemplo_base e)) = ejemplo_base e" for t nf p e
    by (simp add: factura_init_def)
  have its: "items (factura_init t nf (ejemplo_cadena e) (ejemplo_base e)) =
     [item_factura (DescSeguro 150000) 1 15 ''SERVICIO'',
      item_factura (DescReserva 3) 1 10 ''SERVICIO'',
      item_factura (DescSMS ''+57-300-9876543'') 1 5 ''SERVICIO'']" for e t nf
    by (simp add: factura_init_def generar_items_def ejemplo_cadena_def
          ejemplo_base_def prestamo_base_init_def base_obtener_costo_base_def const_defs)
  show ?thesis
    by (simp add: crear_factura_def generar_numero_factura_def gestor_facturacion_init_def
          generar_factura_texto_def agregar_multa_ejemplo pb its multas_def item_factura_def)
qed

subsection \<open>Factories and the inventory\<close>

text \<open>
  C3, as stated: a payload missing a required field makes the factory fail and nothing is
  registered. It fails on the empty payload: the printed-book factory returns a resource
  whose title, author and ISBN are absent, and the inventory holds it afterwards.
\<close>

theorem fabrica_registra_payload_vacio:
  "fst (agregar_recurso_con_fabrica 0 FabricaLibroImpreso kwargs_vacio inventario_init)
     = \<lparr>titulo = None, autor = None, isbn = None, fecha_adquisicion = 0, disponible = True,
        detalle = LibroImpreso None None\<rparr>
   \<and> recursos (snd (agregar_recurso_con_fabrica 0 FabricaLibroImpreso kwargs_vacio
                      inventario_init))
     = [\<lparr>titulo = None, autor = None, isbn = None, fecha_adquisicion = 0, disponible = True,
         detalle = LibroImpreso None None\<rparr>]
   \<and> recursos (snd (agregar_recurso_con_fabrica 0 FabricaLibroImpreso kwargs_vacio
                      inventario_init))
     \<noteq> recursos inventario_init"
  by (simp add: agregar_recurso_con_fabrica_def registrar_recurso_def recurso_init_def
        kwargs_vacio_def get_default_def inventario_init_def Let_def)

text \<open>
  C3, amended. No factory validates its payload: for every factory and every payload the
  call returns a resource whose fields are the payload's entries, absent where the payload
  has none, the acquisition date being the current instant when the payload has none, and
  \<open>agregar_recurso_con_fabrica\<close> appends that resource to the inventory.
\<close>

theorem fabrica_sin_validacion:
  "agregar_recurso_con_fabrica now fab kw g
     = (crear_recurso now fab kw, g\<lparr>recursos := recursos g @ [crear_recurso now fab kw]\<rparr>)
   \<and> titulo (crear_recurso now fab kw) = kw_titulo kw
   \<and> autor (crear_recurso now fab kw) = kw_autor kw
   \<and> isbn (crear_recurso now fab kw) = kw_isbn kw
   \<and> fecha_adquisicion (crear_recurso now fab kw)
       = (case kw_fecha_adquisicion kw of None \<Rightarrow> now | Some d \<Rightarrow> d)
   \<and> disponible (crear_recurso now fab kw)
   \<and> detalle (crear_recurso now fab kw)
       = (case fab of
            FabricaLibroImpreso \<Rightarrow> LibroImpreso (kw_numero_paginas kw) (kw_editorial kw)
          | FabricaRevista \<Rightarrow> Revista (kw_numero_edicion kw) (kw_mes_publicacion kw)
          | FabricaRecursoDigital \<Rightarrow>
              RecursoDigital (kw_formato kw) (kw_tamano_mb kw) (kw_url_acceso kw))"
  by (cases fab)
     (simp_all add: agregar_recurso_con_fabrica_def registrar_recurso_def recurso_init_def
        get_default_def Let_def)

end
